theory Spec2Isabelle
  imports Complex_Main "HOL-Library.Word"
begin

unbundle bit_operations_syntax

section \<open>Fishdle: data model\<close>

text \<open>
  A fish of the database (data/fish.json). Only the members the verified functions read
  are kept. \<open>attributes\<close> lists the own properties of the attributes object as
  key/value pairs in \<open>Object.keys\<close> order; the keys of a JavaScript object are pairwise
  distinct. Reading a property that is not there gives \<open>undefined\<close>, modelled by
  \<open>None\<close>. Strings are sequences of code units.
\<close>

record fish =
  fish_id :: string
  name :: string
  attributes :: "(string \<times> string) list"

definition attr :: "fish \<Rightarrow> string \<Rightarrow> string option" where
  "attr f k = map_of (attributes f) k"

definition Object_keys :: "(string \<times> 'a) list \<Rightarrow> string list" where
  "Object_keys obj = map fst obj"

text \<open>
  The only exception the verified functions can raise: a member is read from
  \<open>null\<close> (Hints before \<open>init\<close>), or a value that is no function is called
  (\<open>includes\<close> on something that is no array).
\<close>

datatype error = TypeError

text \<open>
  Reading \<open>obj[k]\<close> on an object written as a literal: the own entry for \<open>k\<close>; else
  the member of that name inherited from \<open>Object.prototype\<close>; else \<open>undefined\<close>. The
  inherited members are functions, and the prototype object itself under
  \<open>__proto__\<close>: truthy values that are neither arrays nor strings.
\<close>

datatype 'a property = Own 'a | Inherited string | Absent

definition Object_prototype_members :: "string list" where
  "Object_prototype_members =
    [''constructor'', ''hasOwnProperty'', ''isPrototypeOf'', ''propertyIsEnumerable'',
     ''toLocaleString'', ''toString'', ''valueOf'', ''__proto__'',
     ''__defineGetter__'', ''__defineSetter__'', ''__lookupGetter__'', ''__lookupSetter__'']"

definition get_property :: "(string \<times> 'a) list \<Rightarrow> string \<Rightarrow> 'a property" where
  "get_property obj k =
     (case map_of obj k of
        Some v \<Rightarrow> Own v
      | None \<Rightarrow> if k \<in> set Object_prototype_members then Inherited k else Absent)"

section \<open>game.js: constants\<close>

definition BASE_SCORE :: int where "BASE_SCORE = 100"
definition GUESS_PENALTY :: int where "GUESS_PENALTY = 5"
definition MIN_SCORE :: int where "MIN_SCORE = 10"

definition SIZE_ORDER :: "string list" where
  "SIZE_ORDER = [''tiny'', ''small'', ''medium'', ''large'', ''giant'']"

text \<open>The own entries of the adjacency table.\<close>

definition OCEAN_GROUPS :: "(string \<times> string list) list" where
  "OCEAN_GROUPS =
    [(''Atlantic'', [''Atlantic'', ''Arctic'']),
     (''Pacific'', [''Pacific'', ''Indian'']),
     (''Arctic'', [''Atlantic'', ''Arctic'']),
     (''Indian'', [''Pacific'', ''Indian'']),
     (''Freshwater Americas'', [''Freshwater Americas'']),
     (''Freshwater Europe/Asia'', [''Freshwater Europe/Asia''])]"

section \<open>game.js: compareAttributes\<close>

datatype match = Exact | Close | Wrong

datatype direction = Up | Down

text \<open>One entry of the comparison object; the size entry also has a direction
  (\<open>None\<close> is \<open>null\<close>).\<close>

record attr_cmp =
  val :: "string option"
  match :: match

record size_cmp = attr_cmp +
  direction :: "direction option"

record comparison =
  habitat :: attr_cmp
  size_c :: size_cmp
  family :: attr_cmp
  region :: attr_cmp

text \<open>\<open>Array.prototype.indexOf\<close>: the first index holding the value, or \<open>-1\<close>.\<close>

fun indexOf_from :: "'a list \<Rightarrow> 'a \<Rightarrow> int \<Rightarrow> int" where
  "indexOf_from [] v i = - 1"
| "indexOf_from (x # xs) v i = (if x = v then i else indexOf_from xs v (i + 1))"

definition indexOf :: "'a list \<Rightarrow> 'a \<Rightarrow> int" where
  "indexOf xs v = indexOf_from xs v 0"

text \<open>\<open>Array.prototype.includes\<close>.\<close>

definition includes_arr :: "'a list \<Rightarrow> 'a \<Rightarrow> bool" where
  "includes_arr xs v = (v \<in> set xs)"

text \<open>A property key: \<open>undefined\<close> used as a key is the string "undefined".\<close>

definition property_key :: "string option \<Rightarrow> string" where
  "property_key v = (case v of None \<Rightarrow> ''undefined'' | Some s \<Rightarrow> s)"

text \<open>
  \<open>OCEAN_GROUPS[r] || []\<close>: an array and an inherited member are truthy,
  \<open>undefined\<close> is not.
\<close>

definition ocean_group :: "string option \<Rightarrow> string list property" where
  "ocean_group r =
     (case get_property OCEAN_GROUPS (property_key r) of Absent \<Rightarrow> Own [] | p \<Rightarrow> p)"

text \<open>
  \<open>compareAttributes\<close> returns the comparison, or throws where it calls
  \<open>guessedOceanGroup.includes\<close>: an inherited member has no \<open>includes\<close>.
\<close>

definition compareAttributes :: "fish \<Rightarrow> fish \<Rightarrow> error + comparison" where
  "compareAttributes guessed target =
    (let guessedSizeIndex = indexOf (map Some SIZE_ORDER) (attr guessed ''size'');
         targetSizeIndex = indexOf (map Some SIZE_ORDER) (attr target ''size'');
         sizeDiff = guessedSizeIndex - targetSizeIndex;
         guessedOceanGroup = ocean_group (attr guessed ''region'')
     in case guessedOceanGroup of
          Inherited m \<Rightarrow> Inl TypeError
        | Absent \<Rightarrow> Inl TypeError
        | Own grp \<Rightarrow>
           (let isCloseRegion = includes_arr (map Some grp) (attr target ''region'')
            in Inr
              \<lparr> habitat =
                  \<lparr> val = attr guessed ''habitat'',
                    match = (if attr guessed ''habitat'' = attr target ''habitat''
                             then Exact else Wrong) \<rparr>,
                size_c =
                  \<lparr> val = attr guessed ''size'',
                    match = (if sizeDiff = 0 then Exact
                             else if \<bar>sizeDiff\<bar> = 1 then Close else Wrong),
                    direction = (if sizeDiff > 0 then Some Down
                                 else if sizeDiff < 0 then Some Up else None) \<rparr>,
                family =
                  \<lparr> val = attr guessed ''family'',
                    match = (if attr guessed ''family'' = attr target ''family''
                             then Exact else Wrong) \<rparr>,
                region =
                  \<lparr> val = attr guessed ''region'',
                    match = (if attr guessed ''region'' = attr target ''region'' then Exact
                             else if isCloseRegion then Close else Wrong) \<rparr> \<rparr>))"

section \<open>Doubles that are fractions of a power of two\<close>

text \<open>
  The value \<open>numerator / 2 ^ shift\<close> of a double, kept exactly. Both random sources
  of the program produce such numbers with a numerator below \<open>2 ^ 53\<close>.
\<close>

record dyadic =
  numerator :: nat
  shift :: nat

definition dyadic_value :: "dyadic \<Rightarrow> rat" where
  "dyadic_value x = of_nat (numerator x) / 2 ^ shift x"

text \<open>
  \<open>Math.floor(x * n)\<close> for such a double \<open>x\<close> and an array length \<open>n\<close> (below
  \<open>2 ^ 32\<close>, so a double itself). The exact product is
  \<open>numerator x * n / 2 ^ shift x\<close>; the double product is that value rounded to 53
  significant bits, ties to even (\<open>round53\<close> rounds the numerator), and the floor of
  a quotient by \<open>2 ^ shift x\<close> is \<open>div\<close>.
\<close>

fun bit_length :: "nat \<Rightarrow> nat" where
  "bit_length n = (if n = 0 then 0 else Suc (bit_length (n div 2)))"

definition round53 :: "nat \<Rightarrow> nat" where
  "round53 N =
     (if N < 2 ^ 53 then N
      else let e = bit_length N - 53; q = N div 2 ^ e; r = N mod 2 ^ e
           in if 2 ^ e < 2 * r \<or> (2 * r = 2 ^ e \<and> odd q)
              then (q + 1) * 2 ^ e else q * 2 ^ e)"

definition floor_mul :: "dyadic \<Rightarrow> nat \<Rightarrow> nat" where
  "floor_mul x n = round53 (numerator x * n) div 2 ^ shift x"

text \<open>
  The value of a call of \<open>Math.random()\<close>: a double in the interval from 0 (included)
  to 1 (excluded). Such a number is \<open>m / 2 ^ (bit_length m + j)\<close> for a mantissa
  \<open>m\<close> of at most 53 bits and some \<open>j\<close>, and every such pair is a number of that
  interval. The random source is an argument (\<open>rnd\<close>) of the functions that draw
  from it.
\<close>

datatype unit_double = Unit_double "53 word" nat

fun Math_random :: "unit_double \<Rightarrow> dyadic" where
  "Math_random (Unit_double m j) =
     \<lparr> numerator = unat m, shift = bit_length (unat m) + j \<rparr>"

section \<open>daily.js: the Hints module\<close>

definition LETTER_HINT_COST :: nat where "LETTER_HINT_COST = 10"
definition ATTRIBUTE_HINT_COST :: nat where "ATTRIBUTE_HINT_COST = 5"

definition ATTRIBUTE_LABELS :: "(string \<times> string) list" where
  "ATTRIBUTE_LABELS =
    [(''habitat'', ''Habitat''), (''size'', ''Size''),
     (''family'', ''Family''), (''region'', ''Region'')]"

text \<open>
  The module's variables. \<open>targetFish\<close> is \<open>null\<close> (\<open>None\<close>) until \<open>init\<close>.
  The callback that game.js registers (\<open>updateHintsDisplay\<close>) only reads the module
  and writes to the page, so it is not part of the state.
\<close>

record hints =
  targetFish :: "fish option"
  revealedLetters :: "nat list"
  revealedAttributes :: "string list"

definition initial_hints :: hints where
  "initial_hints = \<lparr> targetFish = None, revealedLetters = [], revealedAttributes = [] \<rparr>"

text \<open>\<open>init(fish, onUpdate)\<close> overwrites the variables, whatever they held.\<close>

definition init :: "fish \<Rightarrow> hints \<Rightarrow> hints" where
  "init f s = \<lparr> targetFish = Some f, revealedLetters = [], revealedAttributes = [] \<rparr>"

text \<open>
  The object that \<open>getState\<close> returns and \<open>loadState\<close> takes. A member that is
  missing (or otherwise falsy) is \<open>None\<close>; an array, even an empty one, is truthy.
\<close>

record saved_hints =
  saved_revealedLetters :: "nat list option"
  saved_revealedAttributes :: "string list option"

definition loadState :: "saved_hints \<Rightarrow> hints \<Rightarrow> hints" where
  "loadState state s =
    (let s1 = (case saved_revealedLetters state of
                 Some ls \<Rightarrow> s\<lparr> revealedLetters := ls \<rparr> | None \<Rightarrow> s)
     in case saved_revealedAttributes state of
          Some attrs \<Rightarrow> s1\<lparr> revealedAttributes := attrs \<rparr> | None \<Rightarrow> s1)"

definition getState :: "hints \<Rightarrow> saved_hints" where
  "getState s =
    \<lparr> saved_revealedLetters = Some (revealedLetters s),
      saved_revealedAttributes = Some (revealedAttributes s) \<rparr>"

text \<open>The loop over \<open>0 \<le> i < name.length\<close> that keeps the positions holding no space.\<close>

definition letter_positions :: "string \<Rightarrow> nat list" where
  "letter_positions nm = filter (\<lambda>i. nm ! i \<noteq> CHR '' '') [0 ..< length nm]"

definition getLetterPositions :: "hints \<Rightarrow> error + nat list" where
  "getLetterPositions s =
    (case targetFish s of
       None \<Rightarrow> Inl TypeError
     | Some f \<Rightarrow> Inr (letter_positions (name f)))"

record letter_hint =
  position :: nat
  letter :: char
  cost :: nat

text \<open>
  \<open>revealLetter\<close> returns \<open>null\<close> (\<open>None\<close>) or a hint, and updates the module;
  \<open>rnd\<close> is the value of its call of \<open>Math.random()\<close>. The array is sorted
  numerically after the push.
\<close>

definition revealLetter :: "unit_double \<Rightarrow> hints \<Rightarrow> error + (letter_hint option \<times> hints)" where
  "revealLetter rnd s =
    (case targetFish s of
       None \<Rightarrow> Inl TypeError
     | Some f \<Rightarrow>
        (let allPositions = letter_positions (name f);
             unrevealedPositions =
               filter (\<lambda>pos. \<not> includes_arr (revealedLetters s) pos) allPositions
         in if length unrevealedPositions = 0 then Inr (None, s)
            else
              (let randomIndex = floor_mul (Math_random rnd) (length unrevealedPositions);
                   pos = unrevealedPositions ! randomIndex
               in Inr (Some \<lparr> position = pos, letter = name f ! pos,
                                cost = LETTER_HINT_COST \<rparr>,
                       s\<lparr> revealedLetters := sort (revealedLetters s @ [pos]) \<rparr>))))"

text \<open>The label of a hint is \<open>ATTRIBUTE_LABELS[attribute]\<close>, whatever that is.\<close>

record attribute_hint =
  attribute :: string
  label :: "string property"
  hint_value :: "string option"
  hint_cost :: nat

definition revealAttribute ::
    "unit_double \<Rightarrow> hints \<Rightarrow> error + (attribute_hint option \<times> hints)" where
  "revealAttribute rnd s =
    (case targetFish s of
       None \<Rightarrow> Inl TypeError
     | Some f \<Rightarrow>
        (let allAttributes = Object_keys (attributes f);
             unrevealedAttributes =
               filter (\<lambda>a. \<not> includes_arr (revealedAttributes s) a) allAttributes
         in if length unrevealedAttributes = 0 then Inr (None, s)
            else
              (let randomIndex = floor_mul (Math_random rnd) (length unrevealedAttributes);
                   a = unrevealedAttributes ! randomIndex
               in Inr (Some \<lparr> attribute = a, label = get_property ATTRIBUTE_LABELS a,
                                hint_value = attr f a, hint_cost = ATTRIBUTE_HINT_COST \<rparr>,
                       s\<lparr> revealedAttributes := revealedAttributes s @ [a] \<rparr>))))"

definition canRevealLetter :: "hints \<Rightarrow> error + bool" where
  "canRevealLetter s =
    (case getLetterPositions s of
       Inl e \<Rightarrow> Inl e
     | Inr allPositions \<Rightarrow> Inr (length (revealedLetters s) < length allPositions))"

definition canRevealAttribute :: "hints \<Rightarrow> error + bool" where
  "canRevealAttribute s =
    (case targetFish s of
       None \<Rightarrow> Inl TypeError
     | Some f \<Rightarrow>
         Inr (length (revealedAttributes s) < length (Object_keys (attributes f))))"

definition getHintPenalty :: "hints \<Rightarrow> nat" where
  "getHintPenalty s =
     length (revealedLetters s) * LETTER_HINT_COST
     + length (revealedAttributes s) * ATTRIBUTE_HINT_COST"

section \<open>game.js: calculateScore\<close>

record guess =
  guess_fish :: fish
  guess_comparison :: comparison
  correct :: bool

text \<open>\<open>calculateScore\<close> reads the guesses of the game and the Hints module.\<close>

definition calculateScore :: "guess list \<Rightarrow> hints \<Rightarrow> int" where
  "calculateScore guesses s =
    (let guessPenalty = int (length guesses) * GUESS_PENALTY;
         hintPenalty = int (getHintPenalty s);
         score = BASE_SCORE - guessPenalty - hintPenalty
     in max MIN_SCORE score)"

section \<open>daily.js: the Daily module\<close>

text \<open>
  A valid \<open>Date\<close>, seen through the methods the module calls: the time value in
  milliseconds since 1970-01-01T00:00:00Z, the calendar fields in local time
  (\<open>getMonth\<close> counts from 0) and the ISO string. Nothing relates the members to
  each other here, so what is proved holds for whatever the methods return.
\<close>

record js_date =
  getTime :: int
  getFullYear :: int
  getMonth :: nat
  getDate :: nat
  toISOString :: string

text \<open>Decimal strings: \<open>String(n)\<close> and the template literal on integers.\<close>

definition digit_chars :: string where
  "digit_chars = ''0123456789''"

fun String_of_nat :: "nat \<Rightarrow> string" where
  "String_of_nat n =
     (if n < 10 then [digit_chars ! n]
      else String_of_nat (n div 10) @ [digit_chars ! (n mod 10)])"

definition String_of_int :: "int \<Rightarrow> string" where
  "String_of_int i = (if i < 0 then CHR ''-'' # String_of_nat (nat (- i)) else String_of_nat (nat i))"

definition padStart :: "nat \<Rightarrow> char \<Rightarrow> string \<Rightarrow> string" where
  "padStart n c s = replicate (n - length s) c @ s"

text \<open>
  \<open>parseInt(s, 10)\<close>: white space is skipped, then an optional sign, then the longest
  run of decimal digits is read; with no digit the result is \<open>NaN\<close> (\<open>None\<close>).
\<close>

definition white_space :: string where
  "white_space = [CHR '' '', CHR 0x09, CHR 0x0A, CHR 0x0B, CHR 0x0C, CHR 0x0D]"

definition digits_value :: "string \<Rightarrow> int" where
  "digits_value ds = foldl (\<lambda>acc c. acc * 10 + indexOf digit_chars c) 0 ds"

definition parseInt :: "string \<Rightarrow> int option" where
  "parseInt s =
    (let s1 = dropWhile (\<lambda>c. c \<in> set white_space) s;
         negative = (s1 \<noteq> [] \<and> hd s1 = CHR ''-'');
         s2 = (if s1 \<noteq> [] \<and> (hd s1 = CHR ''-'' \<or> hd s1 = CHR ''+'') then tl s1 else s1);
         ds = takeWhile (\<lambda>c. c \<in> set digit_chars) s2
     in if ds = [] then None
        else Some (if negative then - digits_value ds else digits_value ds))"

definition dateToSeed :: "js_date \<Rightarrow> int option" where
  "dateToSeed date =
    (let year = getFullYear date;
         month = padStart 2 (CHR ''0'') (String_of_nat (getMonth date + 1));
         day = padStart 2 (CHR ''0'') (String_of_nat (getDate date))
     in parseInt (String_of_int year @ month @ day))"

text \<open>
  One call of the generator that \<open>seededRandom(seed)\<close> returns (mulberry32): the new
  value of the captured \<open>seed\<close> and the returned double. The bit operations work on
  the low 32 bits of their operands (0 for \<open>NaN\<close>), \<open>Math.imul\<close> and the addition
  under \<open>^=\<close> are taken modulo \<open>2 ^ 32\<close>, and \<open>>>> 0\<close> reads the result unsigned.
\<close>

definition ToInt32 :: "int option \<Rightarrow> 32 word" where
  "ToInt32 x = (case x of None \<Rightarrow> 0 | Some i \<Rightarrow> word_of_int i)"

definition seededRandom_call :: "int option \<Rightarrow> int option \<times> dyadic" where
  "seededRandom_call seed =
    (let seed1 = map_option (\<lambda>x. x + 0x6D2B79F5) seed;
         t0 = ToInt32 seed1;
         t1 = (t0 XOR drop_bit 15 t0) * (t0 OR 1);
         t2 = t1 XOR (t1 + (t1 XOR drop_bit 7 t1) * (t1 OR 61))
     in (seed1, \<lparr> numerator = unat (t2 XOR drop_bit 14 t2), shift = 32 \<rparr>))"

text \<open>
  \<open>new Date(Date.UTC(2024, 0, 1)).getTime()\<close>: midnight of 2024-01-01 in UTC, 19723
  days after the origin of the time values.
\<close>

definition launchDate :: int where
  "launchDate = 1704067200000"

text \<open>
  \<open>Math.floor(diffTime / 86400000)\<close> divides in double arithmetic. Time values of
  valid dates are at most \<open>8.64 * 10 ^ 15\<close> in magnitude; in that range the quotient
  is below \<open>2 ^ 27\<close>, where a double is nearer than \<open>1 / 86400000\<close> to the exact
  quotient, so the floor is the integer quotient (rounded down, also when negative).
\<close>

definition getGameNumber :: "js_date \<Rightarrow> int" where
  "getGameNumber date =
    (let diffTime = getTime date - launchDate;
         diffDays = diffTime div (1000 * 60 * 60 * 24)
     in diffDays + 1)"

text \<open>Reading an array: the element, or \<open>undefined\<close> (\<open>None\<close>) outside it.\<close>

definition array_get :: "'a list \<Rightarrow> nat \<Rightarrow> 'a option" where
  "array_get xs i = (if i < length xs then Some (xs ! i) else None)"

record daily =
  daily_fish :: "fish option"
  gameNumber :: int
  daily_date :: string

text \<open>
  \<open>getDailyFish(fishDatabase, date)\<close>; \<open>today\<close> is what \<open>getTodayUTC()\<close> returns
  when the date is \<open>null\<close>.
\<close>

definition getDailyFish :: "js_date \<Rightarrow> fish list \<Rightarrow> js_date option \<Rightarrow> daily" where
  "getDailyFish today fishDatabase date_opt =
    (let date = (case date_opt of None \<Rightarrow> today | Some d \<Rightarrow> d);
         seed = dateToSeed date;
         rng = snd (seededRandom_call seed);
         index = floor_mul rng (length fishDatabase)
     in \<lparr> daily_fish = array_get fishDatabase index,
          gameNumber = getGameNumber date,
          daily_date = takeWhile (\<lambda>c. c \<noteq> CHR ''T'') (toISOString date) \<rparr>)"

section \<open>The invariant of the hint ledger\<close>

text \<open>
  What the revealed arrays of a ledger for the target \<open>f\<close> satisfy: the letter
  positions are pairwise different, ascending, inside the name and not on a space; the
  attribute names are pairwise different.
\<close>

definition ledger_invariant :: "fish \<Rightarrow> hints \<Rightarrow> bool" where
  "ledger_invariant f s \<longleftrightarrow>
     targetFish s = Some f
     \<and> distinct (revealedLetters s) \<and> sorted (revealedLetters s)
     \<and> (\<forall>p \<in> set (revealedLetters s). p < length (name f) \<and> name f ! p \<noteq> CHR '' '')
     \<and> distinct (revealedAttributes s)"

text \<open>
  The ledgers that a session can reach for the target \<open>f\<close>: \<open>init\<close>, followed by
  any number of reveal operations, each with its own random draw.
\<close>

inductive reachable :: "fish \<Rightarrow> hints \<Rightarrow> bool" for f :: fish where
  start: "reachable f (init f s0)"
| letter: "reachable f s \<Longrightarrow> revealLetter rnd s = Inr (r, s') \<Longrightarrow> reachable f s'"
| attribute: "reachable f s \<Longrightarrow> revealAttribute rnd s = Inr (r, s') \<Longrightarrow> reachable f s'"

section \<open>Sample data\<close>

text \<open>Fish in the shape of the database entries, used to run the functions.\<close>

definition clownfish :: fish where
  "clownfish =
    \<lparr> fish_id = ''clownfish'', name = ''Clownfish'',
      attributes = [(''habitat'', ''Reef''), (''size'', ''small''),
                    (''family'', ''Pomacentridae''), (''region'', ''Pacific'')] \<rparr>"

definition goldfish :: fish where
  "goldfish =
    \<lparr> fish_id = ''goldfish'', name = ''Goldfish'',
      attributes = [(''habitat'', ''Freshwater''), (''size'', ''small''),
                    (''family'', ''Cyprinidae''), (''region'', ''Freshwater Americas'')] \<rparr>"

definition atlantic_salmon :: fish where
  "atlantic_salmon =
    \<lparr> fish_id = ''atlantic-salmon'', name = ''Atlantic Salmon'',
      attributes = [(''habitat'', ''Open Ocean''), (''size'', ''medium''),
                    (''family'', ''Salmonidae''), (''region'', ''Atlantic'')] \<rparr>"

definition arctic_char :: fish where
  "arctic_char =
    \<lparr> fish_id = ''arctic-char'', name = ''Arctic Char'',
      attributes = [(''habitat'', ''Freshwater''), (''size'', ''medium''),
                    (''family'', ''Salmonidae''), (''region'', ''Arctic'')] \<rparr>"


text \<open>What comparing the goldfish with the clownfish as the target gives.\<close>

definition goldfish_against_clownfish :: comparison where
  "goldfish_against_clownfish =
    \<lparr> habitat = \<lparr> val = Some ''Freshwater'', match = Wrong \<rparr>,
      size_c = \<lparr> val = Some ''small'', match = Exact, direction = None \<rparr>,
      family = \<lparr> val = Some ''Cyprinidae'', match = Wrong \<rparr>,
      region = \<lparr> val = Some ''Freshwater Americas'', match = Wrong \<rparr> \<rparr>"

text \<open>An entry whose size is not on the scale and whose region is not in the table.\<close>

definition misfiled_fish :: fish where
  "misfiled_fish =
    \<lparr> fish_id = ''misfiled'', name = ''Misfiled'',
      attributes = [(''habitat'', ''Reef''), (''size'', ''huge''),
                    (''family'', ''Pomacentridae''), (''region'', ''Baltic'')] \<rparr>"

text \<open>Ledgers for the goldfish: partly revealed, and with nothing left to reveal.\<close>

definition partly_revealed :: hints where
  "partly_revealed =
    \<lparr> targetFish = Some goldfish, revealedLetters = [0, 3],
      revealedAttributes = [''size''] \<rparr>"

definition all_revealed :: hints where
  "all_revealed =
    \<lparr> targetFish = Some goldfish, revealedLetters = [0, 1, 2, 3, 4, 5, 6, 7],
      revealedAttributes = [''region'', ''habitat'', ''size'', ''family''] \<rparr>"

definition new_year_2024 :: js_date where
  "new_year_2024 =
    \<lparr> getTime = 1704067200000, getFullYear = 2024, getMonth = 0, getDate = 1,
      toISOString = ''2024-01-01T00:00:00.000Z'' \<rparr>"

text \<open>The recursive equations are used by instance only.\<close>

declare bit_length.simps [simp del]
declare String_of_nat.simps [simp del]

section \<open>compareAttributes: size and region\<close>

lemma indexOf_SIZE_ORDER:
  "i < length SIZE_ORDER \<Longrightarrow> indexOf (map Some SIZE_ORDER) (Some (SIZE_ORDER ! i)) = int i"
proof -
  assume "i < length SIZE_ORDER"
  then have "i = 0 \<or> i = 1 \<or> i = 2 \<or> i = 3 \<or> i = 4"
    by (simp add: SIZE_ORDER_def) arith
  then show ?thesis
    by (elim disjE) (simp_all add: SIZE_ORDER_def indexOf_def)
qed

lemma indexOf_from_absent: "v \<notin> set xs \<Longrightarrow> indexOf_from xs v i = - 1"
  by (induction xs arbitrary: i) auto

lemma indexOf_absent: "v \<notin> set xs \<Longrightarrow> indexOf xs v = - 1"
  by (simp add: indexOf_def indexOf_from_absent)

text \<open>No own key of the adjacency table is the name of an inherited member.\<close>

lemma OCEAN_GROUPS_inherited:
  "k \<in> set Object_prototype_members \<Longrightarrow> map_of OCEAN_GROUPS k = None"
  by (auto simp add: Object_prototype_members_def OCEAN_GROUPS_def)

text \<open>The group that \<open>OCEAN_GROUPS[r] || []\<close> gives for the key \<open>k\<close> when it is an array.\<close>

lemma ocean_group_Own:
  "property_key r \<notin> set Object_prototype_members \<Longrightarrow>
     ocean_group r =
       Own (case map_of OCEAN_GROUPS (property_key r) of None \<Rightarrow> [] | Some grp \<Rightarrow> grp)"
  by (simp add: ocean_group_def get_property_def split: option.splits)

lemma ocean_group_Inherited:
  "property_key r \<in> set Object_prototype_members \<Longrightarrow>
     ocean_group r = Inherited (property_key r)"
  by (simp add: ocean_group_def get_property_def OCEAN_GROUPS_inherited)

text \<open>The comparison that is returned when the group is an array.\<close>

lemma compareAttributes_returns:
  assumes "property_key (attr guessed ''region'') \<notin> set Object_prototype_members"
  shows "compareAttributes guessed target =
    Inr \<lparr> habitat =
            \<lparr> val = attr guessed ''habitat'',
              match = (if attr guessed ''habitat'' = attr target ''habitat''
                       then Exact else Wrong) \<rparr>,
          size_c =
            (let d = indexOf (map Some SIZE_ORDER) (attr guessed ''size'')
                     - indexOf (map Some SIZE_ORDER) (attr target ''size'')
             in \<lparr> val = attr guessed ''size'',
                  match = (if d = 0 then Exact else if \<bar>d\<bar> = 1 then Close else Wrong),
                  direction = (if d > 0 then Some Down
                               else if d < 0 then Some Up else None) \<rparr>),
          family =
            \<lparr> val = attr guessed ''family'',
              match = (if attr guessed ''family'' = attr target ''family''
                       then Exact else Wrong) \<rparr>,
          region =
            \<lparr> val = attr guessed ''region'',
              match = (if attr guessed ''region'' = attr target ''region'' then Exact
                       else if attr target ''region'' \<in> Some `
                            set (case map_of OCEAN_GROUPS (property_key (attr guessed ''region''))
                                 of None \<Rightarrow> [] | Some grp \<Rightarrow> grp)
                       then Close else Wrong) \<rparr> \<rparr>"
  by (simp add: compareAttributes_def ocean_group_Own [OF assms] includes_arr_def Let_def)

text \<open>The call of \<open>includes\<close> on an inherited member throws.\<close>

lemma compareAttributes_throws:
  "property_key (attr guessed ''region'') \<in> set Object_prototype_members \<Longrightarrow>
     compareAttributes guessed target = Inl TypeError"
  by (simp add: compareAttributes_def ocean_group_Inherited Let_def)

lemma compareAttributes_constructor:
  "compareAttributes (goldfish\<lparr> attributes := [(''size'', ''small''), (''region'', ''constructor'')] \<rparr>)
     clownfish = Inl TypeError"
  by (rule compareAttributes_throws)
    (simp add: attr_def property_key_def Object_prototype_members_def)



lemma ocean_group_keys:
  "r \<in> set (Object_keys OCEAN_GROUPS) \<Longrightarrow>
     r = ''Atlantic'' \<or> r = ''Pacific'' \<or> r = ''Arctic'' \<or> r = ''Indian''
     \<or> r = ''Freshwater Americas'' \<or> r = ''Freshwater Europe/Asia''"
  by (auto simp add: Object_keys_def OCEAN_GROUPS_def)

lemma ocean_group_keys_own:
  "r \<in> set (Object_keys OCEAN_GROUPS) \<Longrightarrow> r \<notin> set Object_prototype_members"
  using OCEAN_GROUPS_inherited [of r]
  by (auto simp add: Object_keys_def map_of_eq_None_iff)

lemma region_match:
  assumes "property_key (attr guessed ''region'') \<notin> set Object_prototype_members"
  shows "\<exists>c. compareAttributes guessed target = Inr c
     \<and> region c =
        \<lparr> val = attr guessed ''region'',
          match = (if attr guessed ''region'' = attr target ''region'' then Exact
                   else if attr target ''region'' \<in> Some `
                        set (case map_of OCEAN_GROUPS (property_key (attr guessed ''region''))
                             of None \<Rightarrow> [] | Some grp \<Rightarrow> grp)
                   then Close else Wrong) \<rparr>"
  by (simp add: compareAttributes_returns [OF assms])

text \<open>
  C2. When both regions are keys of the adjacency table, the comparison is returned and
  its region entry is exact for equal regions, close for Atlantic with Arctic and for
  Pacific with Indian (either way round), and wrong otherwise; the two Freshwater
  regions are close to no other region.
\<close>

theorem region_classification:
  assumes g: "attr guessed ''region'' = Some gr" and t: "attr target ''region'' = Some tr"
    and gk: "gr \<in> set (Object_keys OCEAN_GROUPS)" and tk: "tr \<in> set (Object_keys OCEAN_GROUPS)"
  shows "\<exists>c. compareAttributes guessed target = Inr c
     \<and> match (region c) =
     (if gr = tr then Exact
      else if (gr = ''Atlantic'' \<and> tr = ''Arctic'') \<or> (gr = ''Arctic'' \<and> tr = ''Atlantic'')
            \<or> (gr = ''Pacific'' \<and> tr = ''Indian'') \<or> (gr = ''Indian'' \<and> tr = ''Pacific'')
      then Close else Wrong)"
proof -
  from gk have "property_key (attr guessed ''region'') \<notin> set Object_prototype_members"
    by (simp add: g property_key_def ocean_group_keys_own)
  from region_match [OF this, of target] obtain c
    where c: "compareAttributes guessed target = Inr c"
      and rc: "region c =
        \<lparr> val = attr guessed ''region'',
          match = (if attr guessed ''region'' = attr target ''region'' then Exact
                   else if attr target ''region'' \<in> Some `
                        set (case map_of OCEAN_GROUPS (property_key (attr guessed ''region''))
                             of None \<Rightarrow> [] | Some grp \<Rightarrow> grp)
                   then Close else Wrong) \<rparr>"
    by blast
  have m: "match (region c) =
        (if gr = tr then Exact
         else if tr \<in> set (case map_of OCEAN_GROUPS gr of None \<Rightarrow> [] | Some grp \<Rightarrow> grp)
         then Close else Wrong)"
    by (simp add: rc g t property_key_def image_iff)
  from ocean_group_keys [OF gk] ocean_group_keys [OF tk]
  have "match (region c) =
     (if gr = tr then Exact
      else if (gr = ''Atlantic'' \<and> tr = ''Arctic'') \<or> (gr = ''Arctic'' \<and> tr = ''Atlantic'')
            \<or> (gr = ''Pacific'' \<and> tr = ''Indian'') \<or> (gr = ''Indian'' \<and> tr = ''Pacific'')
      then Close else Wrong)"
    unfolding m by (elim disjE) (simp_all add: OCEAN_GROUPS_def)
  with c show ?thesis by simp
qed

text \<open>Atlantic guessed against Arctic is close; Freshwater Americas against Pacific is
  wrong.\<close>

theorem region_classification_witness:
  "attr atlantic_salmon ''region'' = Some ''Atlantic''
   \<and> attr arctic_char ''region'' = Some ''Arctic''
   \<and> attr goldfish ''region'' = Some ''Freshwater Americas''
   \<and> attr clownfish ''region'' = Some ''Pacific''
   \<and> set [''Atlantic'', ''Arctic'', ''Freshwater Americas'', ''Pacific'']
       \<subseteq> set (Object_keys OCEAN_GROUPS)
   \<and> (\<exists>c. compareAttributes atlantic_salmon arctic_char = Inr c \<and> match (region c) = Close)
   \<and> (\<exists>c. compareAttributes goldfish clownfish = Inr c \<and> match (region c) = Wrong)"
proof -
  have a: "attr atlantic_salmon ''region'' = Some ''Atlantic''"
    by (simp add: attr_def atlantic_salmon_def)
  have b: "attr arctic_char ''region'' = Some ''Arctic''"
    by (simp add: attr_def arctic_char_def)
  have c: "attr goldfish ''region'' = Some ''Freshwater Americas''"
    by (simp add: attr_def goldfish_def)
  have d: "attr clownfish ''region'' = Some ''Pacific''"
    by (simp add: attr_def clownfish_def)
  have k: "''Atlantic'' \<in> set (Object_keys OCEAN_GROUPS)"
      "''Arctic'' \<in> set (Object_keys OCEAN_GROUPS)"
      "''Freshwater Americas'' \<in> set (Object_keys OCEAN_GROUPS)"
      "''Pacific'' \<in> set (Object_keys OCEAN_GROUPS)"
    by (simp_all add: Object_keys_def OCEAN_GROUPS_def)
  from region_classification [OF a b k(1) k(2)]
  have "\<exists>c. compareAttributes atlantic_salmon arctic_char = Inr c \<and> match (region c) = Close"
    by simp
  moreover from region_classification [OF c d k(3) k(4)]
  have "\<exists>c. compareAttributes goldfish clownfish = Inr c \<and> match (region c) = Wrong"
    by simp
  ultimately show ?thesis using a b c d k by simp
qed

section \<open>compareAttributes: values outside the domain\<close>

lemma group_members:
  "x \<in> set (case map_of OCEAN_GROUPS k of None \<Rightarrow> [] | Some grp \<Rightarrow> grp) \<Longrightarrow>
     x \<in> set (Object_keys OCEAN_GROUPS) \<and> k \<in> set (Object_keys OCEAN_GROUPS)"
  by (auto simp add: OCEAN_GROUPS_def Object_keys_def split: option.splits if_splits)

text \<open>
  C4, as stated, fails: a guessed fish whose size (huge) is not on the scale and whose
  region (Baltic) is not in the table is compared without any error.
\<close>

theorem invalid_attribute_counterexample:
  "attr misfiled_fish ''size'' = Some ''huge'' \<and> ''huge'' \<notin> set SIZE_ORDER
   \<and> attr misfiled_fish ''region'' = Some ''Baltic''
   \<and> ''Baltic'' \<notin> set (Object_keys OCEAN_GROUPS)
   \<and> compareAttributes misfiled_fish clownfish =
       Inr \<lparr> habitat = \<lparr> val = Some ''Reef'', match = Exact \<rparr>,
             size_c = \<lparr> val = Some ''huge'', match = Wrong, direction = Some Up \<rparr>,
             family = \<lparr> val = Some ''Pomacentridae'', match = Exact \<rparr>,
             region = \<lparr> val = Some ''Baltic'', match = Wrong \<rparr> \<rparr>"
  by (simp add: compareAttributes_def attr_def misfiled_fish_def clownfish_def SIZE_ORDER_def
      Object_keys_def OCEAN_GROUPS_def indexOf_def ocean_group_def get_property_def
      Object_prototype_members_def property_key_def includes_arr_def Let_def)

text \<open>
  C4, amended. \<open>compareAttributes\<close> does not check the domains of the attributes and
  raises no InvalidAttributeError. When the guessed region is not the name of a member
  inherited from \<open>Object.prototype\<close>, it returns a comparison, in which a size that is
  not on the scale has index \<open>-1\<close>: guessed against a target on the scale its direction
  is up, and it is close to tiny and wrong for the other sizes; as the target of a guess
  on the scale the direction is down, close for tiny; two sizes off the scale are exact
  with no direction. When the guessed or the target region has no entry in the
  adjacency table, the region is exact for equal values and wrong otherwise.
\<close>

theorem out_of_domain_attributes:
  assumes own: "property_key (attr guessed ''region'') \<notin> set Object_prototype_members"
  shows "\<exists>c. compareAttributes guessed target = Inr c
   \<and> (attr guessed ''size'' \<notin> Some ` set SIZE_ORDER \<and> j < length SIZE_ORDER
        \<and> attr target ''size'' = Some (SIZE_ORDER ! j) \<longrightarrow>
      size_c c =
        \<lparr> val = attr guessed ''size'', match = (if j = 0 then Close else Wrong),
          direction = Some Up \<rparr>)
   \<and> (i < length SIZE_ORDER \<and> attr guessed ''size'' = Some (SIZE_ORDER ! i)
        \<and> attr target ''size'' \<notin> Some ` set SIZE_ORDER \<longrightarrow>
      size_c c =
        \<lparr> val = attr guessed ''size'', match = (if i = 0 then Close else Wrong),
          direction = Some Down \<rparr>)
   \<and> (attr guessed ''size'' \<notin> Some ` set SIZE_ORDER
        \<and> attr target ''size'' \<notin> Some ` set SIZE_ORDER \<longrightarrow>
      size_c c = \<lparr> val = attr guessed ''size'', match = Exact, direction = None \<rparr>)
   \<and> (property_key (attr guessed ''region'') \<notin> set (Object_keys OCEAN_GROUPS)
        \<or> property_key (attr target ''region'') \<notin> set (Object_keys OCEAN_GROUPS) \<longrightarrow>
      region c =
        \<lparr> val = attr guessed ''region'',
          match = (if attr guessed ''region'' = attr target ''region'' then Exact else Wrong) \<rparr>)"
proof -
  define grp where
    "grp = (case map_of OCEAN_GROUPS (property_key (attr guessed ''region''))
            of None \<Rightarrow> [] | Some grp \<Rightarrow> grp)"
  define d where
    "d = indexOf (map Some SIZE_ORDER) (attr guessed ''size'')
         - indexOf (map Some SIZE_ORDER) (attr target ''size'')"
  from compareAttributes_returns [OF own, of target] obtain c
    where c: "compareAttributes guessed target = Inr c"
      and sc: "size_c c =
        \<lparr> val = attr guessed ''size'',
          match = (if d = 0 then Exact else if \<bar>d\<bar> = 1 then Close else Wrong),
          direction = (if d > 0 then Some Down else if d < 0 then Some Up else None) \<rparr>"
      and rc: "region c =
        \<lparr> val = attr guessed ''region'',
          match = (if attr guessed ''region'' = attr target ''region'' then Exact
                   else if attr target ''region'' \<in> Some ` set grp then Close else Wrong) \<rparr>"
    by (simp add: grp_def d_def Let_def)
  have s1: "size_c c =
        \<lparr> val = attr guessed ''size'', match = (if j = 0 then Close else Wrong),
          direction = Some Up \<rparr>"
    if "attr guessed ''size'' \<notin> Some ` set SIZE_ORDER \<and> j < length SIZE_ORDER
        \<and> attr target ''size'' = Some (SIZE_ORDER ! j)"
    using that by (simp add: sc d_def indexOf_absent indexOf_SIZE_ORDER)
  have s2: "size_c c =
        \<lparr> val = attr guessed ''size'', match = (if i = 0 then Close else Wrong),
          direction = Some Down \<rparr>"
    if "i < length SIZE_ORDER \<and> attr guessed ''size'' = Some (SIZE_ORDER ! i)
        \<and> attr target ''size'' \<notin> Some ` set SIZE_ORDER"
    using that by (simp add: sc d_def indexOf_absent indexOf_SIZE_ORDER)
  have s3: "size_c c = \<lparr> val = attr guessed ''size'', match = Exact, direction = None \<rparr>"
    if "attr guessed ''size'' \<notin> Some ` set SIZE_ORDER
        \<and> attr target ''size'' \<notin> Some ` set SIZE_ORDER"
    using that by (simp add: sc d_def indexOf_absent)
  have r: "region c =
        \<lparr> val = attr guessed ''region'',
          match = (if attr guessed ''region'' = attr target ''region'' then Exact else Wrong) \<rparr>"
    if k: "property_key (attr guessed ''region'') \<notin> set (Object_keys OCEAN_GROUPS)
        \<or> property_key (attr target ''region'') \<notin> set (Object_keys OCEAN_GROUPS)"
  proof -
    have "attr target ''region'' \<notin> Some ` set grp"
    proof
      assume "attr target ''region'' \<in> Some ` set grp"
      then obtain x where x: "attr target ''region'' = Some x" "x \<in> set grp" by auto
      from group_members [OF x(2) [unfolded grp_def]] x(1) k show False
        by (simp add: property_key_def)
    qed
    then show ?thesis by (simp add: rc)
  qed
  from c s1 s2 s3 r show ?thesis by blast
qed

text \<open>The misfiled fish against the clownfish, the other way round, and against
  itself.\<close>

theorem out_of_domain_attributes_witness:
  "property_key (attr misfiled_fish ''region'') \<notin> set Object_prototype_members
   \<and> property_key (attr clownfish ''region'') \<notin> set Object_prototype_members
   \<and> attr misfiled_fish ''size'' \<notin> Some ` set SIZE_ORDER \<and> (1::nat) < length SIZE_ORDER
   \<and> attr clownfish ''size'' = Some (SIZE_ORDER ! 1)
   \<and> property_key (attr misfiled_fish ''region'') \<notin> set (Object_keys OCEAN_GROUPS)
   \<and> (\<exists>c. compareAttributes misfiled_fish clownfish = Inr c
        \<and> size_c c = \<lparr> val = Some ''huge'', match = Wrong, direction = Some Up \<rparr>
        \<and> region c = \<lparr> val = Some ''Baltic'', match = Wrong \<rparr>)
   \<and> (\<exists>c. compareAttributes clownfish misfiled_fish = Inr c
        \<and> size_c c = \<lparr> val = Some ''small'', match = Wrong, direction = Some Down \<rparr>
        \<and> region c = \<lparr> val = Some ''Pacific'', match = Wrong \<rparr>)
   \<and> (\<exists>c. compareAttributes misfiled_fish misfiled_fish = Inr c
        \<and> size_c c = \<lparr> val = Some ''huge'', match = Exact, direction = None \<rparr>
        \<and> region c = \<lparr> val = Some ''Baltic'', match = Exact \<rparr>)"
proof -
  have o: "property_key (attr misfiled_fish ''region'') \<notin> set Object_prototype_members"
      "property_key (attr clownfish ''region'') \<notin> set Object_prototype_members"
    by (simp_all add: attr_def misfiled_fish_def clownfish_def property_key_def
        Object_prototype_members_def)
  have a: "attr misfiled_fish ''size'' \<notin> Some ` set SIZE_ORDER"
    by (simp add: attr_def misfiled_fish_def SIZE_ORDER_def image_iff)
  have b: "(1::nat) < length SIZE_ORDER" by (simp add: SIZE_ORDER_def)
  have c: "attr clownfish ''size'' = Some (SIZE_ORDER ! 1)"
    by (simp add: attr_def clownfish_def SIZE_ORDER_def)
  have d: "property_key (attr misfiled_fish ''region'') \<notin> set (Object_keys OCEAN_GROUPS)"
    by (simp add: attr_def misfiled_fish_def property_key_def Object_keys_def OCEAN_GROUPS_def)
  have v: "attr misfiled_fish ''size'' = Some ''huge''" "attr clownfish ''size'' = Some ''small''"
      "attr misfiled_fish ''region'' = Some ''Baltic''" "attr clownfish ''region'' = Some ''Pacific''"
    by (simp_all add: attr_def misfiled_fish_def clownfish_def)
  from out_of_domain_attributes [OF o(1), of clownfish 1 1] a b c d
  have "\<exists>c. compareAttributes misfiled_fish clownfish = Inr c
        \<and> size_c c = \<lparr> val = Some ''huge'', match = Wrong, direction = Some Up \<rparr>
        \<and> region c = \<lparr> val = Some ''Baltic'', match = Wrong \<rparr>"
    by (auto simp add: v)
  moreover from out_of_domain_attributes [OF o(2), of misfiled_fish 1 1] a b c d
  have "\<exists>c. compareAttributes clownfish misfiled_fish = Inr c
        \<and> size_c c = \<lparr> val = Some ''small'', match = Wrong, direction = Some Down \<rparr>
        \<and> region c = \<lparr> val = Some ''Pacific'', match = Wrong \<rparr>"
    by (auto simp add: v)
  moreover from out_of_domain_attributes [OF o(1), of misfiled_fish 1 1] a d
  have "\<exists>c. compareAttributes misfiled_fish misfiled_fish = Inr c
        \<and> size_c c = \<lparr> val = Some ''huge'', match = Exact, direction = None \<rparr>
        \<and> region c = \<lparr> val = Some ''Baltic'', match = Exact \<rparr>"
    by (auto simp add: v)
  ultimately show ?thesis using o a b c d by simp
qed

section \<open>calculateScore\<close>

text \<open>
  C5. The score is \<open>max(10, 100 - 5 * guessCount - hintPenalty)\<close>, where the guess
  count is the number of guesses made and the hint penalty is what the Hints module
  reports; it is never below 10.
\<close>

theorem score_formula:
  "calculateScore guesses s =
     max 10 (100 - 5 * int (length guesses) - int (getHintPenalty s))
   \<and> 10 \<le> calculateScore guesses s"
  by (simp add: calculateScore_def BASE_SCORE_def GUESS_PENALTY_def MIN_SCORE_def Let_def)

text \<open>One wrong guess and no hint give 95; nine letters and two attributes revealed
  give the floor of 10.\<close>

theorem score_formula_witness:
  "calculateScore
     [\<lparr> guess_fish = goldfish, guess_comparison = goldfish_against_clownfish,
        correct = False \<rparr>]
     (init clownfish initial_hints) = 95
   \<and> calculateScore []
       \<lparr> targetFish = Some clownfish, revealedLetters = [0, 1, 2, 3, 4, 5, 6, 7, 8],
         revealedAttributes = [''size'', ''habitat''] \<rparr> = 10"
proof -
  have "getHintPenalty (init clownfish initial_hints) = 0"
    by (simp add: getHintPenalty_def init_def)
  moreover have "getHintPenalty
       \<lparr> targetFish = Some clownfish, revealedLetters = [0, 1, 2, 3, 4, 5, 6, 7, 8],
         revealedAttributes = [''size'', ''habitat''] \<rparr> = 100"
    by (simp add: getHintPenalty_def LETTER_HINT_COST_def ATTRIBUTE_HINT_COST_def)
  ultimately show ?thesis
    using score_formula [of "[\<lparr> guess_fish = goldfish,
        guess_comparison = goldfish_against_clownfish, correct = False \<rparr>]"
        "init clownfish initial_hints"]
      score_formula [of "[]" "\<lparr> targetFish = Some clownfish,
         revealedLetters = [0, 1, 2, 3, 4, 5, 6, 7, 8],
         revealedAttributes = [''size'', ''habitat''] \<rparr>"]
    by simp
qed

section \<open>Daily: game number and selection\<close>

text \<open>
  C6. The game number is \<open>floor((date - 2024-01-01 UTC) / 1 day) + 1\<close>, with the date
  and the launch date as times in milliseconds; it is 1 during 2024-01-01 (UTC) and is
  one more for the date 24 hours later.
\<close>

theorem game_number:
  "getGameNumber date = \<lfloor>(of_int (getTime date - launchDate) :: rat) / 86400000\<rfloor> + 1
   \<and> (launchDate \<le> getTime date \<and> getTime date < launchDate + 86400000
        \<longrightarrow> getGameNumber date = 1)
   \<and> getGameNumber (date\<lparr> getTime := getTime date + 86400000 \<rparr>) = getGameNumber date + 1"
proof (intro conjI impI)
  show "getGameNumber date = \<lfloor>(of_int (getTime date - launchDate) :: rat) / 86400000\<rfloor> + 1"
  proof -
    have "\<lfloor>(of_int (getTime date - launchDate) :: rat) / of_int 86400000\<rfloor>
          = (getTime date - launchDate) div 86400000"
      by (rule floor_divide_of_int_eq)
    then show ?thesis
      by (simp add: getGameNumber_def Let_def del: of_int_diff)
  qed
  show "getGameNumber date = 1"
    if "launchDate \<le> getTime date \<and> getTime date < launchDate + 86400000"
    using that by (simp add: getGameNumber_def Let_def)
  show "getGameNumber (date\<lparr> getTime := getTime date + 86400000 \<rparr>) = getGameNumber date + 1"
    by (simp add: getGameNumber_def Let_def)
qed

theorem game_number_witness:
  "launchDate \<le> getTime new_year_2024 \<and> getTime new_year_2024 < launchDate + 86400000
   \<and> getGameNumber new_year_2024 = 1
   \<and> getGameNumber (new_year_2024\<lparr> getTime := getTime new_year_2024 + 86400000 \<rparr>) = 2"
proof -
  have h: "launchDate \<le> getTime new_year_2024 \<and> getTime new_year_2024 < launchDate + 86400000"
    by (simp add: launchDate_def new_year_2024_def)
  with game_number [of new_year_2024] show ?thesis by simp
qed

text \<open>
  C3, amended. On an empty database \<open>getDailyFish\<close> raises no error: the index is 0,
  the fish read there is \<open>undefined\<close>, and the result still carries the game number
  and the date string of the date.
\<close>

theorem empty_database:
  "getDailyFish today [] date_opt =
     (let date = (case date_opt of None \<Rightarrow> today | Some d \<Rightarrow> d)
      in \<lparr> daily_fish = None, gameNumber = getGameNumber date,
           daily_date = takeWhile (\<lambda>c. c \<noteq> CHR ''T'') (toISOString date) \<rparr>)"
  by (simp add: getDailyFish_def Let_def floor_mul_def round53_def array_get_def)

text \<open>
  C3, as stated, fails: for 2024-01-01 and the empty database a selection is returned,
  with no fish in it.
\<close>

theorem empty_database_counterexample:
  "getDailyFish new_year_2024 [] (Some new_year_2024) =
     \<lparr> daily_fish = None, gameNumber = 1, daily_date = ''2024-01-01'' \<rparr>"
  by (simp add: getDailyFish_def Let_def floor_mul_def round53_def array_get_def
      new_year_2024_def getGameNumber_def launchDate_def)

text \<open>The same with the date left out, so that today's date is taken.\<close>

theorem empty_database_witness:
  "getDailyFish new_year_2024 [] None =
     \<lparr> daily_fish = None, gameNumber = 1, daily_date = ''2024-01-01'' \<rparr>"
  using empty_database [of new_year_2024 None]
  by (simp add: new_year_2024_def getGameNumber_def launchDate_def)
section \<open>Random indices stay inside the array\<close>

lemma bit_length_upper: "n < 2 ^ bit_length n"
proof (induction n rule: bit_length.induct)
  case (1 n)
  show ?case
  proof (cases "n = 0")
    case True
    then show ?thesis by (simp add: bit_length.simps)
  next
    case False
    with 1 have "n div 2 < 2 ^ bit_length (n div 2)" by simp
    then have "n < 2 * 2 ^ bit_length (n div 2)" by arith
    with False show ?thesis by (simp add: bit_length.simps [of n])
  qed
qed

lemma bit_length_lower: "0 < n \<Longrightarrow> 2 ^ (bit_length n - 1) \<le> n"
proof (induction n rule: bit_length.induct)
  case (1 n)
  then have n: "n \<noteq> 0" by simp
  show ?case
  proof (cases "n div 2 = 0")
    case True
    then show ?thesis using n by (simp add: bit_length.simps [of n] bit_length.simps [of 0])
  next
    case False
    with 1 n have ih: "2 ^ (bit_length (n div 2) - 1) \<le> n div 2" by simp
    from False have "bit_length (n div 2) \<noteq> 0" by (simp add: bit_length.simps [of "n div 2"])
    then obtain b where b: "bit_length (n div 2) = Suc b" by (cases "bit_length (n div 2)") auto
    from ih b have "2 * 2 ^ b \<le> n" by simp
    with n b show ?thesis by (simp add: bit_length.simps [of n])
  qed
qed

lemma bit_length_big:
  assumes "2 ^ 53 \<le> N"
  shows "53 < bit_length N"
proof (rule ccontr)
  assume "\<not> 53 < bit_length N"
  then have "bit_length N \<le> 53" by simp
  then have "(2::nat) ^ bit_length N \<le> 2 ^ 53" by (rule power_increasing) simp
  with bit_length_upper [of N] assms show False by linarith
qed

text \<open>Rounding to 53 bits adds at most half a unit of the last kept bit.\<close>

lemma round53_le:
  assumes "2 ^ 53 \<le> N"
  shows "round53 N \<le> N + 2 ^ (bit_length N - 54)"
proof -
  define e where "e = bit_length N - 53"
  define q where "q = N div 2 ^ e"
  define r where "r = N mod 2 ^ e"
  have N: "N = q * 2 ^ e + r" unfolding q_def r_def by (rule div_mult_mod_eq [symmetric])
  from assms have "53 < bit_length N" by (rule bit_length_big)
  then have e: "e = Suc (bit_length N - 54)" by (simp add: e_def)
  have r53: "round53 N =
      (if 2 ^ e < 2 * r \<or> (2 * r = 2 ^ e \<and> odd q) then (q + 1) * 2 ^ e else q * 2 ^ e)"
    using assms by (simp add: round53_def Let_def e_def q_def r_def)
  show ?thesis
  proof (cases "2 ^ e < 2 * r \<or> (2 * r = 2 ^ e \<and> odd q)")
    case True
    then have "2 ^ e \<le> 2 * r" by auto
    then have "2 ^ (bit_length N - 54) \<le> r" by (simp add: e)
    then have "(q + 1) * 2 ^ e \<le> q * 2 ^ e + r + 2 ^ (bit_length N - 54)"
      by (simp add: e algebra_simps)
    with True r53 N show ?thesis by simp
  next
    case False
    with r53 N show ?thesis by simp
  qed
qed

text \<open>
  The floor of the double product of a number below 1 (with a numerator that fits a
  double) and a positive length is an index below the length.
\<close>

lemma floor_mul_less:
  assumes k: "numerator x < 2 ^ shift x" and d: "numerator x < 2 ^ 53" and n: "0 < n"
  shows "floor_mul x n < n"
proof -
  define N where "N = numerator x * n"
  have bound: "N + n \<le> 2 ^ shift x * n"
  proof -
    from k have "numerator x + 1 \<le> 2 ^ shift x" by simp
    then have "(numerator x + 1) * n \<le> 2 ^ shift x * n" by (rule mult_le_mono1)
    then show ?thesis by (simp add: N_def)
  qed
  have "round53 N < N + n"
  proof (cases "N < 2 ^ 53")
    case True
    with n show ?thesis by (simp add: round53_def)
  next
    case False
    then have big: "2 ^ 53 \<le> N" by simp
    then have "0 < N" by (simp add: less_le_trans [of 0 "2 ^ 53"])
    then have "2 ^ (bit_length N - 1) \<le> N" by (rule bit_length_lower)
    also have "N < 2 ^ 53 * n" unfolding N_def using d n by simp
    finally have lt: "(2::nat) ^ (bit_length N - 1) < 2 ^ 53 * n" .
    from big have "53 < bit_length N" by (rule bit_length_big)
    then obtain c where c: "bit_length N = 54 + c"
      using less_iff_Suc_add [of 53 "bit_length N"] by auto
    from lt have "(2::nat) ^ (53 + c) < 2 ^ 53 * n" by (simp add: c)
    then have "(2::nat) ^ 53 * 2 ^ c < 2 ^ 53 * n" by (simp only: power_add)
    then have "2 ^ c < n" by (simp only: mult_less_cancel1)
    then have "2 ^ (bit_length N - 54) < n" by (simp add: c)
    with round53_le [OF big] show ?thesis by simp
  qed
  with bound have "round53 N < 2 ^ shift x * n" by simp
  then have "round53 N div 2 ^ shift x < n"
    by (simp add: less_mult_imp_div_less mult.commute)
  then show ?thesis by (simp add: floor_mul_def N_def)
qed

lemma Math_random_less: "0 < n \<Longrightarrow> floor_mul (Math_random rnd) n < n"
proof (cases rnd)
  case (Unit_double m j)
  assume n: "0 < n"
  have "unat m < 2 ^ bit_length (unat m)" by (rule bit_length_upper)
  also have "\<dots> \<le> 2 ^ (bit_length (unat m) + j)" by simp
  finally have a: "numerator (Math_random rnd) < 2 ^ shift (Math_random rnd)"
    by (simp add: Unit_double)
  have "unat m < 2 ^ LENGTH(53)" by (rule unsigned_less)
  then have b: "numerator (Math_random rnd) < 2 ^ 53" by (simp add: Unit_double)
  from a b n show ?thesis by (rule floor_mul_less)
qed

lemma seededRandom_call_word:
  "\<exists>w :: 32 word. snd (seededRandom_call seed) = \<lparr> numerator = unat w, shift = 32 \<rparr>"
  unfolding seededRandom_call_def Let_def snd_conv by (rule exI) (rule refl)

lemma seededRandom_call_less: "0 < n \<Longrightarrow> floor_mul (snd (seededRandom_call seed)) n < n"
proof -
  assume n: "0 < n"
  from seededRandom_call_word obtain w :: "32 word"
    where w: "snd (seededRandom_call seed) = \<lparr> numerator = unat w, shift = 32 \<rparr>" ..
  have "unat w < 2 ^ LENGTH(32)" by (rule unsigned_less)
  then have a: "unat w < 2 ^ 32" by simp
  then have "unat w < 2 ^ 53" by simp
  with a n show ?thesis unfolding w by (intro floor_mul_less) simp_all
qed

lemma seededRandom_call_unit:
  "0 \<le> dyadic_value (snd (seededRandom_call seed)) \<and> dyadic_value (snd (seededRandom_call seed)) < 1"
proof -
  from seededRandom_call_word obtain w :: "32 word"
    where w: "snd (seededRandom_call seed) = \<lparr> numerator = unat w, shift = 32 \<rparr>" ..
  have "unat w < 2 ^ LENGTH(32)" by (rule unsigned_less)
  then have "unat w < 4294967296" by simp
  then have "(of_nat (unat w) :: rat) < of_nat 4294967296" by (simp only: of_nat_less_iff)
  moreover have "(0::rat) \<le> of_nat (unat w)" by (rule of_nat_0_le_iff)
  ultimately show ?thesis by (simp add: w dyadic_value_def)
qed

text \<open>
  C10. Every value the seeded generator returns lies in the interval from 0 (included)
  to 1 (excluded); for a non-empty database the index computed by \<open>getDailyFish\<close> is
  below the length of the database, and the fish returned is the element at that index.
\<close>

theorem daily_index_in_bounds:
  assumes "fishDatabase \<noteq> []"
  shows "0 \<le> dyadic_value (snd (seededRandom_call seed))
     \<and> dyadic_value (snd (seededRandom_call seed)) < 1
     \<and> (let date = (case date_opt of None \<Rightarrow> today | Some d \<Rightarrow> d);
             index = floor_mul (snd (seededRandom_call (dateToSeed date))) (length fishDatabase)
         in index < length fishDatabase
            \<and> daily_fish (getDailyFish today fishDatabase date_opt) = Some (fishDatabase ! index)
            \<and> fishDatabase ! index \<in> set fishDatabase)"
proof -
  from assms have n: "0 < length fishDatabase" by simp
  define date where "date = (case date_opt of None \<Rightarrow> today | Some d \<Rightarrow> d)"
  define index where
    "index = floor_mul (snd (seededRandom_call (dateToSeed date))) (length fishDatabase)"
  from n have i: "index < length fishDatabase"
    unfolding index_def by (rule seededRandom_call_less)
  have "daily_fish (getDailyFish today fishDatabase date_opt) = array_get fishDatabase index"
    by (simp add: getDailyFish_def Let_def index_def date_def)
  with i have "daily_fish (getDailyFish today fishDatabase date_opt) = Some (fishDatabase ! index)"
    by (simp add: array_get_def)
  with i seededRandom_call_unit [of seed] show ?thesis
    by (simp add: Let_def index_def date_def)
qed

lemma dateToSeed_new_year_2024: "dateToSeed new_year_2024 = Some 20240101"
  by code_simp

lemma seededRandom_call_20240101:
  "snd (seededRandom_call (Some 20240101)) = \<lparr> numerator = 2167870494, shift = 32 \<rparr>"
proof -
  have t0: "ToInt32 (map_option (\<lambda>x. x + 0x6D2B79F5) (Some 20240101)) = 1851805914"
    by (simp add: ToInt32_def)
  have t1: "((1851805914 :: 32 word) XOR drop_bit 15 1851805914) * (1851805914 OR 1)
            = 1310718526"
    by simp
  have t2: "(1310718526 :: 32 word)
            XOR (1310718526 + (1310718526 XOR drop_bit 7 1310718526) * (1310718526 OR 61))
            = 2167738570"
    by simp
  have t3: "unat ((2167738570 :: 32 word) XOR drop_bit 14 2167738570) = 2167870494"
    by simp
  show ?thesis
    unfolding seededRandom_call_def Let_def t0 t1 t2 t3 by simp
qed

text \<open>
  On 2024-01-01 the generator returns 2167870494 / 4294967296 (about 0.5047), so of two
  fish the second is the fish of the day.
\<close>

theorem daily_index_in_bounds_witness:
  "[clownfish, goldfish] \<noteq> []
   \<and> dyadic_value (snd (seededRandom_call (Some 20240101))) = 2167870494 / 4294967296
   \<and> 0 \<le> dyadic_value (snd (seededRandom_call (Some 20240101)))
   \<and> dyadic_value (snd (seededRandom_call (Some 20240101))) < 1
   \<and> floor_mul (snd (seededRandom_call (dateToSeed new_year_2024)))
        (length [clownfish, goldfish]) = 1
   \<and> daily_fish (getDailyFish new_year_2024 [clownfish, goldfish] None) = Some goldfish
   \<and> goldfish \<in> set [clownfish, goldfish]"
proof -
  have ne: "[clownfish, goldfish] \<noteq> []" by simp
  have v: "dyadic_value (snd (seededRandom_call (Some 20240101))) = 2167870494 / 4294967296"
    by (simp add: seededRandom_call_20240101 dyadic_value_def)
  have i: "floor_mul (snd (seededRandom_call (dateToSeed new_year_2024)))
        (length [clownfish, goldfish]) = 1"
    by (simp add: dateToSeed_new_year_2024 seededRandom_call_20240101 floor_mul_def round53_def)
  from daily_index_in_bounds [OF ne, where seed = "Some 20240101" and date_opt = None
      and today = new_year_2024] i
  have "0 \<le> dyadic_value (snd (seededRandom_call (Some 20240101)))"
    and "dyadic_value (snd (seededRandom_call (Some 20240101))) < 1"
    and "daily_fish (getDailyFish new_year_2024 [clownfish, goldfish] None) = Some goldfish"
    by (simp_all add: Let_def)
  with ne v i show ?thesis by simp
qed

section \<open>Hints: the reveal operations\<close>

lemma letter_positions_iff:
  "p \<in> set (letter_positions nm) \<longleftrightarrow> p < length nm \<and> nm ! p \<noteq> CHR '' ''"
  by (auto simp add: letter_positions_def)

text \<open>The two outcomes of \<open>revealLetter\<close> on an initialised ledger.\<close>

lemma revealLetter_cases:
  assumes "targetFish s = Some f"
  shows "(set (letter_positions (name f)) \<subseteq> set (revealedLetters s)
            \<and> revealLetter rnd s = Inr (None, s))
       \<or> (\<exists>pos. pos \<in> set (letter_positions (name f)) \<and> pos \<notin> set (revealedLetters s)
            \<and> revealLetter rnd s =
                Inr (Some \<lparr> position = pos, letter = name f ! pos, cost = LETTER_HINT_COST \<rparr>,
                     s\<lparr> revealedLetters := sort (revealedLetters s @ [pos]) \<rparr>))"
proof -
  define un where
    "un = filter (\<lambda>pos. \<not> includes_arr (revealedLetters s) pos) (letter_positions (name f))"
  show ?thesis
  proof (cases "un = []")
    case True
    then have "set (letter_positions (name f)) \<subseteq> set (revealedLetters s)"
      by (auto simp add: un_def filter_empty_conv includes_arr_def)
    moreover from True have "revealLetter rnd s = Inr (None, s)"
      by (simp add: revealLetter_def assms un_def [symmetric] Let_def)
    ultimately show ?thesis by simp
  next
    case False
    define pos where "pos = un ! floor_mul (Math_random rnd) (length un)"
    from False have "floor_mul (Math_random rnd) (length un) < length un"
      by (simp add: Math_random_less)
    then have "pos \<in> set un" by (simp add: pos_def)
    then have "pos \<in> set (letter_positions (name f))" and "pos \<notin> set (revealedLetters s)"
      by (simp_all add: un_def includes_arr_def)
    moreover from False have "revealLetter rnd s =
        Inr (Some \<lparr> position = pos, letter = name f ! pos, cost = LETTER_HINT_COST \<rparr>,
             s\<lparr> revealedLetters := sort (revealedLetters s @ [pos]) \<rparr>)"
      by (simp add: revealLetter_def assms un_def [symmetric] pos_def Let_def)
    ultimately show ?thesis by blast
  qed
qed

lemma revealAttribute_cases:
  assumes "targetFish s = Some f"
  shows "(set (Object_keys (attributes f)) \<subseteq> set (revealedAttributes s)
            \<and> revealAttribute rnd s = Inr (None, s))
       \<or> (\<exists>a. a \<in> set (Object_keys (attributes f)) \<and> a \<notin> set (revealedAttributes s)
            \<and> revealAttribute rnd s =
                Inr (Some \<lparr> attribute = a, label = get_property ATTRIBUTE_LABELS a,
                             hint_value = attr f a, hint_cost = ATTRIBUTE_HINT_COST \<rparr>,
                     s\<lparr> revealedAttributes := revealedAttributes s @ [a] \<rparr>))"
proof -
  define un where
    "un = filter (\<lambda>a. \<not> includes_arr (revealedAttributes s) a) (Object_keys (attributes f))"
  show ?thesis
  proof (cases "un = []")
    case True
    then have "set (Object_keys (attributes f)) \<subseteq> set (revealedAttributes s)"
      by (auto simp add: un_def filter_empty_conv includes_arr_def)
    moreover from True have "revealAttribute rnd s = Inr (None, s)"
      by (simp add: revealAttribute_def assms un_def [symmetric] Let_def)
    ultimately show ?thesis by simp
  next
    case False
    define a where "a = un ! floor_mul (Math_random rnd) (length un)"
    from False have "floor_mul (Math_random rnd) (length un) < length un"
      by (simp add: Math_random_less)
    then have "a \<in> set un" by (simp add: a_def)
    then have "a \<in> set (Object_keys (attributes f))" and "a \<notin> set (revealedAttributes s)"
      by (simp_all add: un_def includes_arr_def)
    moreover from False have "revealAttribute rnd s =
        Inr (Some \<lparr> attribute = a, label = get_property ATTRIBUTE_LABELS a,
                     hint_value = attr f a, hint_cost = ATTRIBUTE_HINT_COST \<rparr>,
             s\<lparr> revealedAttributes := revealedAttributes s @ [a] \<rparr>)"
      by (simp add: revealAttribute_def assms un_def [symmetric] a_def Let_def)
    ultimately show ?thesis by blast
  qed
qed

lemma revealLetter_invariant:
  assumes "ledger_invariant f s"
  shows "\<exists>r s'. revealLetter rnd s = Inr (r, s') \<and> ledger_invariant f s'
           \<and> set (revealedLetters s) \<subseteq> set (revealedLetters s')
           \<and> set (revealedAttributes s) \<subseteq> set (revealedAttributes s')"
proof -
  from assms have t: "targetFish s = Some f" by (simp add: ledger_invariant_def)
  from revealLetter_cases [OF t, of rnd] show ?thesis
  proof (elim disjE conjE exE)
    assume "revealLetter rnd s = Inr (None, s)"
    with assms show ?thesis by auto
  next
    fix pos
    assume pos: "pos \<in> set (letter_positions (name f))" "pos \<notin> set (revealedLetters s)"
      and r: "revealLetter rnd s =
        Inr (Some \<lparr> position = pos, letter = name f ! pos, cost = LETTER_HINT_COST \<rparr>,
             s\<lparr> revealedLetters := sort (revealedLetters s @ [pos]) \<rparr>)"
    from assms pos
    have "ledger_invariant f (s\<lparr> revealedLetters := sort (revealedLetters s @ [pos]) \<rparr>)"
      by (auto simp add: ledger_invariant_def letter_positions_iff)
    with r show ?thesis by auto
  qed
qed

lemma revealAttribute_invariant:
  assumes "ledger_invariant f s"
  shows "\<exists>r s'. revealAttribute rnd s = Inr (r, s') \<and> ledger_invariant f s'
           \<and> set (revealedLetters s) \<subseteq> set (revealedLetters s')
           \<and> set (revealedAttributes s) \<subseteq> set (revealedAttributes s')"
proof -
  from assms have t: "targetFish s = Some f" by (simp add: ledger_invariant_def)
  from revealAttribute_cases [OF t, of rnd] show ?thesis
  proof (elim disjE conjE exE)
    assume "revealAttribute rnd s = Inr (None, s)"
    with assms show ?thesis by auto
  next
    fix a
    assume a: "a \<notin> set (revealedAttributes s)"
      and r: "revealAttribute rnd s =
        Inr (Some \<lparr> attribute = a, label = get_property ATTRIBUTE_LABELS a,
                     hint_value = attr f a, hint_cost = ATTRIBUTE_HINT_COST \<rparr>,
             s\<lparr> revealedAttributes := revealedAttributes s @ [a] \<rparr>)"
    from assms a
    have "ledger_invariant f (s\<lparr> revealedAttributes := revealedAttributes s @ [a] \<rparr>)"
      by (auto simp add: ledger_invariant_def)
    with r show ?thesis by auto
  qed
qed

lemma reachable_invariant: "reachable f s \<Longrightarrow> ledger_invariant f s"
proof (induction rule: reachable.induct)
  case (start s0)
  show ?case by (simp add: ledger_invariant_def init_def)
next
  case (letter s rnd r s')
  with revealLetter_invariant [of f s rnd] show ?case by auto
next
  case (attribute s rnd r s')
  with revealAttribute_invariant [of f s rnd] show ?case by auto
qed

text \<open>
  C9. A ledger initialised for a target fish satisfies the invariant, every ledger
  reached from it by reveal operations does, and each reveal operation on a ledger that
  satisfies it returns (a hint or null) with a ledger that satisfies it again and whose
  two revealed arrays contain everything the arrays held before.
\<close>

theorem reveal_preserves_invariant:
  "ledger_invariant f (init f s0)
   \<and> (ledger_invariant f s \<longrightarrow>
        (\<exists>r s'. revealLetter rnd s = Inr (r, s') \<and> ledger_invariant f s'
           \<and> set (revealedLetters s) \<subseteq> set (revealedLetters s')
           \<and> set (revealedAttributes s) \<subseteq> set (revealedAttributes s'))
      \<and> (\<exists>r s'. revealAttribute rnd s = Inr (r, s') \<and> ledger_invariant f s'
           \<and> set (revealedLetters s) \<subseteq> set (revealedLetters s')
           \<and> set (revealedAttributes s) \<subseteq> set (revealedAttributes s')))
   \<and> (reachable f s \<longrightarrow> ledger_invariant f s)"
  using revealLetter_invariant [of f s rnd] revealAttribute_invariant [of f s rnd]
    reachable_invariant [of f s]
  by (simp add: ledger_invariant_def init_def)

lemma bit_length_5: "bit_length 5 = 3"
  by (simp add: bit_length.simps)

lemma letter_positions_Goldfish: "letter_positions ''Goldfish'' = [0, 1, 2, 3, 4, 5, 6, 7]"
  by (simp add: letter_positions_def upt_rec)

lemma revealLetter_goldfish:
  "revealLetter (Unit_double 5 0) (init goldfish initial_hints) =
     Inr (Some \<lparr> position = 5, letter = CHR ''i'', cost = 10 \<rparr>,
          \<lparr> targetFish = Some goldfish, revealedLetters = [5], revealedAttributes = [] \<rparr>)"
  by (simp add: revealLetter_def init_def bit_length_5 letter_positions_Goldfish includes_arr_def
      LETTER_HINT_COST_def goldfish_def floor_mul_def round53_def Let_def)

lemma revealAttribute_goldfish:
  "revealAttribute (Unit_double 5 0) (init goldfish initial_hints) =
     Inr (Some \<lparr> attribute = ''family'', label = Own ''Family'',
                  hint_value = Some ''Cyprinidae'', hint_cost = 5 \<rparr>,
          \<lparr> targetFish = Some goldfish, revealedLetters = [],
            revealedAttributes = [''family''] \<rparr>)"
  by (simp add: revealAttribute_def init_def bit_length_5 includes_arr_def
      ATTRIBUTE_HINT_COST_def goldfish_def Object_keys_def floor_mul_def round53_def
      ATTRIBUTE_LABELS_def get_property_def attr_def Let_def)

text \<open>
  With the draw 5/8 the fresh ledger of the goldfish reveals the letter at position 5
  and the attribute family; both new ledgers satisfy the invariant.
\<close>

theorem reveal_preserves_invariant_witness:
  "ledger_invariant goldfish (init goldfish initial_hints)
   \<and> reachable goldfish (init goldfish initial_hints)
   \<and> revealLetter (Unit_double 5 0) (init goldfish initial_hints) =
       Inr (Some \<lparr> position = 5, letter = CHR ''i'', cost = 10 \<rparr>,
            \<lparr> targetFish = Some goldfish, revealedLetters = [5], revealedAttributes = [] \<rparr>)
   \<and> ledger_invariant goldfish
       \<lparr> targetFish = Some goldfish, revealedLetters = [5], revealedAttributes = [] \<rparr>
   \<and> revealAttribute (Unit_double 5 0) (init goldfish initial_hints) =
       Inr (Some \<lparr> attribute = ''family'', label = Own ''Family'',
                    hint_value = Some ''Cyprinidae'', hint_cost = 5 \<rparr>,
            \<lparr> targetFish = Some goldfish, revealedLetters = [],
              revealedAttributes = [''family''] \<rparr>)
   \<and> ledger_invariant goldfish
       \<lparr> targetFish = Some goldfish, revealedLetters = [], revealedAttributes = [''family''] \<rparr>"
proof -
  have i: "ledger_invariant goldfish (init goldfish initial_hints)"
    using reveal_preserves_invariant [of goldfish initial_hints] by simp
  have r: "reachable goldfish (init goldfish initial_hints)" by (rule reachable.start)
  from i reveal_preserves_invariant
    [of goldfish initial_hints "init goldfish initial_hints" "Unit_double 5 0"]
  have "ledger_invariant goldfish
       \<lparr> targetFish = Some goldfish, revealedLetters = [5], revealedAttributes = [] \<rparr>"
    and "ledger_invariant goldfish
       \<lparr> targetFish = Some goldfish, revealedLetters = [], revealedAttributes = [''family''] \<rparr>"
    by (auto simp add: revealLetter_goldfish revealAttribute_goldfish)
  with i r revealLetter_goldfish revealAttribute_goldfish show ?thesis by simp
qed

text \<open>
  C8. On an initialised ledger in which every attribute name of the target (the four
  names of a database entry) is revealed, \<open>revealAttribute\<close> returns null and the
  ledger as it was, for every random draw; so the revealed arrays and the penalty stay
  as they are however often it is called. The same holds for \<open>revealLetter\<close> once every
  position of the name that holds no space is revealed.
\<close>

theorem reveal_exhausted:
  assumes "targetFish s = Some f"
  shows "(set (Object_keys (attributes f)) \<subseteq> set (revealedAttributes s) \<longrightarrow>
            revealAttribute rnd s = Inr (None, s))
       \<and> (set (letter_positions (name f)) \<subseteq> set (revealedLetters s) \<longrightarrow>
            revealLetter rnd s = Inr (None, s))"
  using revealLetter_cases [OF assms, of rnd] revealAttribute_cases [OF assms, of rnd]
  by auto

theorem reveal_exhausted_witness:
  "targetFish all_revealed = Some goldfish
   \<and> Object_keys (attributes goldfish) = [''habitat'', ''size'', ''family'', ''region'']
   \<and> set (Object_keys (attributes goldfish)) \<subseteq> set (revealedAttributes all_revealed)
   \<and> set (letter_positions (name goldfish)) \<subseteq> set (revealedLetters all_revealed)
   \<and> revealAttribute (Unit_double 5 0) all_revealed = Inr (None, all_revealed)
   \<and> revealLetter (Unit_double 5 0) all_revealed = Inr (None, all_revealed)
   \<and> getHintPenalty all_revealed = 100"
proof -
  have t: "targetFish all_revealed = Some goldfish" by (simp add: all_revealed_def)
  have k: "Object_keys (attributes goldfish) = [''habitat'', ''size'', ''family'', ''region'']"
    by (simp add: Object_keys_def goldfish_def)
  have a: "set (Object_keys (attributes goldfish)) \<subseteq> set (revealedAttributes all_revealed)"
    by (simp add: k all_revealed_def)
  have l: "set (letter_positions (name goldfish)) \<subseteq> set (revealedLetters all_revealed)"
    by (simp add: goldfish_def letter_positions_Goldfish all_revealed_def)
  have p: "getHintPenalty all_revealed = 100"
    by (simp add: getHintPenalty_def all_revealed_def LETTER_HINT_COST_def
        ATTRIBUTE_HINT_COST_def)
  from reveal_exhausted [OF t, of "Unit_double 5 0"] a l
  have "revealAttribute (Unit_double 5 0) all_revealed = Inr (None, all_revealed)"
    and "revealLetter (Unit_double 5 0) all_revealed = Inr (None, all_revealed)"
    by simp_all
  with t k a l p show ?thesis by simp
qed

text \<open>
  C7. The object \<open>getState\<close> returns for a ledger, loaded by \<open>loadState\<close> into a ledger
  freshly initialised for the same target fish, gives back the ledger itself; so
  \<open>canRevealLetter\<close>, \<open>canRevealAttribute\<close> and \<open>getHintPenalty\<close> return what they
  returned before.
\<close>

theorem hints_round_trip:
  assumes "targetFish s = Some f"
  shows "loadState (getState s) (init f s0) = s
     \<and> canRevealLetter (loadState (getState s) (init f s0)) = canRevealLetter s
     \<and> canRevealAttribute (loadState (getState s) (init f s0)) = canRevealAttribute s
     \<and> getHintPenalty (loadState (getState s) (init f s0)) = getHintPenalty s"
proof -
  have "loadState (getState s) (init f s0) = s"
    using assms by (simp add: loadState_def getState_def init_def)
  then show ?thesis by simp
qed

theorem hints_round_trip_witness:
  "targetFish partly_revealed = Some goldfish
   \<and> getState partly_revealed =
       \<lparr> saved_revealedLetters = Some [0, 3], saved_revealedAttributes = Some [''size''] \<rparr>
   \<and> loadState (getState partly_revealed) (init goldfish initial_hints) = partly_revealed
   \<and> canRevealLetter (loadState (getState partly_revealed) (init goldfish initial_hints))
       = Inr True
   \<and> canRevealAttribute (loadState (getState partly_revealed) (init goldfish initial_hints))
       = Inr True
   \<and> getHintPenalty (loadState (getState partly_revealed) (init goldfish initial_hints)) = 25"
proof -
  have t: "targetFish partly_revealed = Some goldfish" by (simp add: partly_revealed_def)
  have g: "getState partly_revealed =
       \<lparr> saved_revealedLetters = Some [0, 3], saved_revealedAttributes = Some [''size''] \<rparr>"
    by (simp add: getState_def partly_revealed_def)
  have l: "canRevealLetter partly_revealed = Inr True"
    by (simp add: canRevealLetter_def getLetterPositions_def partly_revealed_def goldfish_def
        letter_positions_Goldfish)
  have a: "canRevealAttribute partly_revealed = Inr True"
    by (simp add: canRevealAttribute_def partly_revealed_def goldfish_def Object_keys_def)
  have p: "getHintPenalty partly_revealed = 25"
    by (simp add: getHintPenalty_def partly_revealed_def LETTER_HINT_COST_def
        ATTRIBUTE_HINT_COST_def)
  from hints_round_trip [OF t, of initial_hints] t g l a p show ?thesis by simp
qed

end
